theory Spec2Isabelle
  imports Main "HOL-Library.Word"
begin

unbundle bit_operations_syntax

section \<open>Machine types and constants of FDC2214.h\<close>

type_synonym u8 = "8 word"
type_synonym u16 = "16 word"
type_synonym u32 = "32 word"

definition ADDRESS :: u8 where "ADDRESS = 42"

definition REG_RCOUNT_CH0 :: u8 where "REG_RCOUNT_CH0 = 8"
definition REG_RCOUNT_CH1 :: u8 where "REG_RCOUNT_CH1 = 9"
definition REG_SETTLECOUNT_CH0 :: u8 where "REG_SETTLECOUNT_CH0 = 16"
definition REG_SETTLECOUNT_CH1 :: u8 where "REG_SETTLECOUNT_CH1 = 17"
definition REG_CLKDIVIDERS_CH0 :: u8 where "REG_CLKDIVIDERS_CH0 = 20"
definition REG_CLKDIVIDERS_CH1 :: u8 where "REG_CLKDIVIDERS_CH1 = 21"
definition REG_STATUS :: u8 where "REG_STATUS = 24"
definition REG_ERRCONFIG :: u8 where "REG_ERRCONFIG = 25"
definition REG_CONFIG :: u8 where "REG_CONFIG = 26"
definition REG_MUXCONFIG :: u8 where "REG_MUXCONFIG = 27"
definition REG_RESET :: u8 where "REG_RESET = 28"
definition REG_DRIVECURRENT_CH0 :: u8 where "REG_DRIVECURRENT_CH0 = 30"
definition REG_DRIVECURRENT_CH1 :: u8 where "REG_DRIVECURRENT_CH1 = 31"
definition REG_MFGID :: u8 where "REG_MFGID = 126"

section \<open>The typeBuffer union\<close>

text \<open>
  The class member \<open>typeBuffer\<close> is a union of \<open>byte uint8[4]\<close>,
  \<open>uint16_t uint16[2]\<close> and \<open>uint32_t uint32[1]\<close> over the same four bytes.
  The four bytes are the fields of a record; the wider views are read and written
  in the byte order of the boards the firmware is built for (AVR and ARM,
  both little-endian): \<open>uint8[0]\<close> is the least significant byte of \<open>uint16[0]\<close>
  and of \<open>uint32[0]\<close>.
\<close>

record typeBuffer_t =
  uint8_0 :: u8
  uint8_1 :: u8
  uint8_2 :: u8
  uint8_3 :: u8

definition uint16_0 :: "typeBuffer_t \<Rightarrow> u16" where
  "uint16_0 b = word_cat (uint8_1 b) (uint8_0 b)"

definition uint32_0 :: "typeBuffer_t \<Rightarrow> u32" where
  "uint32_0 b =
     word_cat (word_cat (uint8_3 b) (uint8_2 b) :: u16) (word_cat (uint8_1 b) (uint8_0 b) :: u16)"

definition set_uint16_0 :: "u16 \<Rightarrow> typeBuffer_t \<Rightarrow> typeBuffer_t" where
  "set_uint16_0 v b = b\<lparr>uint8_0 := ucast v, uint8_1 := ucast (drop_bit 8 v)\<rparr>"

text \<open>Arduino's \<open>bitClear(value, bit)\<close> is \<open>value &= ~(1UL << bit)\<close>.\<close>

definition bitClear :: "u8 \<Rightarrow> nat \<Rightarrow> u8" where
  "bitClear v n = v AND NOT (push_bit n 1)"

section \<open>The environment: pins, the two-wire bus and the device behind it\<close>

datatype pin_mode = INPUT | OUTPUT
datatype level = LOW | HIGH

text \<open>
  Everything the firmware does to the outside world is appended to a trace, oldest
  event first. \<open>Transmit a bs\<close> is one write transaction to bus address \<open>a\<close> carrying
  the bytes \<open>bs\<close>; \<open>Request a n bs\<close> is one read transaction asking address \<open>a\<close> for
  \<open>n\<close> bytes, of which \<open>bs\<close> arrived.
\<close>

datatype event =
    PinMode u8 pin_mode
  | DigitalWrite u8 level
  | Delay nat
  | WireBegin
  | WireSetClock nat
  | Transmit u8 "u8 list"
  | Request u8 nat "u8 list"

text \<open>
  The chip at the other end of the bus is a parameter: a state of any type \<open>'d\<close>
  and the two reactions of that state to a write transaction and to a read
  transaction.
\<close>

record 'd transport =
  on_write :: "u8 \<Rightarrow> u8 list \<Rightarrow> 'd \<Rightarrow> 'd"
  on_read :: "u8 \<Rightarrow> nat \<Rightarrow> 'd \<Rightarrow> u8 list \<times> 'd"

text \<open>
  One record holds the members of the \<open>FDC2214\<close> object (the first eight fields, in
  the order of the class declaration), the buffers of the global \<open>Wire\<close> object, the
  state of the device and the trace.
\<close>

record 'd state =
  typeBuffer :: typeBuffer_t
  clockEnable :: u8
  intB :: u8
  shutDown :: u8
  activeChannel :: u8
  chConfigBit :: u8
  registerBuffer :: u16
  sensorValue :: u32
  txAddress :: u8
  txBuffer :: "u8 list"
  rxBuffer :: "u8 list"
  device :: 'd
  trace :: "event list"

subsection \<open>Arduino core calls\<close>

definition pinMode :: "u8 \<Rightarrow> pin_mode \<Rightarrow> 'd state \<Rightarrow> 'd state" where
  "pinMode pin m s = s\<lparr>trace := trace s @ [PinMode pin m]\<rparr>"

definition digitalWrite :: "u8 \<Rightarrow> level \<Rightarrow> 'd state \<Rightarrow> 'd state" where
  "digitalWrite pin v s = s\<lparr>trace := trace s @ [DigitalWrite pin v]\<rparr>"

definition delay :: "nat \<Rightarrow> 'd state \<Rightarrow> 'd state" where
  "delay ms s = s\<lparr>trace := trace s @ [Delay ms]\<rparr>"

subsection \<open>The Wire library\<close>

text \<open>
  Modelled from the spec: the Bus Transport collaborator (Arduino's \<open>Wire\<close>), which the
  driver calls and which is not part of the repository. \<open>beginTransmission\<close> starts an
  empty transmit buffer for an address, \<open>write\<close> queues bytes, \<open>endTransmission\<close>
  sends the queued bytes as one transaction; \<open>requestFrom\<close> performs one read
  transaction of at most the requested number of bytes and keeps them for \<open>read\<close>,
  which hands them out in the order received and returns -1 when none is left.
  The capacity of the transmit buffer is not modelled: the driver never queues more
  than three bytes.
\<close>

definition Wire_begin :: "'d state \<Rightarrow> 'd state" where
  "Wire_begin s = s\<lparr>trace := trace s @ [WireBegin]\<rparr>"

definition Wire_setClock :: "nat \<Rightarrow> 'd state \<Rightarrow> 'd state" where
  "Wire_setClock hz s = s\<lparr>trace := trace s @ [WireSetClock hz]\<rparr>"

definition Wire_beginTransmission :: "u8 \<Rightarrow> 'd state \<Rightarrow> 'd state" where
  "Wire_beginTransmission a s = s\<lparr>txAddress := a, txBuffer := []\<rparr>"

definition Wire_write :: "u8 list \<Rightarrow> 'd state \<Rightarrow> 'd state" where
  "Wire_write bs s = s\<lparr>txBuffer := txBuffer s @ bs\<rparr>"

definition Wire_endTransmission :: "'d transport \<Rightarrow> 'd state \<Rightarrow> 'd state" where
  "Wire_endTransmission T s =
     s\<lparr>txBuffer := [],
       device := on_write T (txAddress s) (txBuffer s) (device s),
       trace := trace s @ [Transmit (txAddress s) (txBuffer s)]\<rparr>"

definition Wire_requestFrom :: "'d transport \<Rightarrow> u8 \<Rightarrow> nat \<Rightarrow> 'd state \<Rightarrow> 'd state" where
  "Wire_requestFrom T a n s =
     (case on_read T a n (device s) of
        (bs, d) \<Rightarrow>
          s\<lparr>rxBuffer := take n bs, device := d,
            trace := trace s @ [Request a n (take n bs)]\<rparr>)"

definition Wire_read :: "'d state \<Rightarrow> int \<times> 'd state" where
  "Wire_read s =
     (case rxBuffer s of
        [] \<Rightarrow> (- 1, s)
      | b # bs \<Rightarrow> (uint b, s\<lparr>rxBuffer := bs\<rparr>))"

section \<open>The driver, FDC2214.cpp\<close>

text \<open>
  The constructor runs on storage whose contents are not determined (\<open>mem\<close>): the
  members with a default initialiser in the class declaration receive it, the others
  (\<open>typeBuffer\<close>, \<open>intB\<close>, \<open>shutDown\<close>) keep what the storage held. The parameters
  shadow the members of the same name and are not stored.
\<close>

definition FDC2214 :: "u8 \<Rightarrow> u8 \<Rightarrow> u8 \<Rightarrow> 'd state \<Rightarrow> 'd state" where
  "FDC2214 clockEnable' intB' shutDown' mem =
     (let s = mem\<lparr>clockEnable := 0, activeChannel := 0, chConfigBit := 0,
                  registerBuffer := 0, sensorValue := 0\<rparr>;
          s = pinMode clockEnable' OUTPUT s;
          s = digitalWrite clockEnable' HIGH s;
          s = pinMode intB' INPUT s;
          s = pinMode shutDown' OUTPUT s;
          s = digitalWrite shutDown' HIGH s;
          s = delay 1 s;
          s = digitalWrite shutDown' LOW s
      in s)"

definition sendByte :: "'d transport \<Rightarrow> u8 \<Rightarrow> 'd state \<Rightarrow> 'd state" where
  "sendByte T aByte s =
     (let s = Wire_beginTransmission ADDRESS s;
          s = Wire_write [aByte] s;
          s = Wire_endTransmission T s
      in s)"

definition writeRegister16 :: "'d transport \<Rightarrow> u8 \<Rightarrow> u8 \<Rightarrow> u8 \<Rightarrow> 'd state \<Rightarrow> 'd state" where
  "writeRegister16 T regID msb lsb s =
     (let s = s\<lparr>typeBuffer := (typeBuffer s)\<lparr>uint8_0 := regID\<rparr>\<rparr>;
          s = s\<lparr>typeBuffer := (typeBuffer s)\<lparr>uint8_1 := msb\<rparr>\<rparr>;
          s = s\<lparr>typeBuffer := (typeBuffer s)\<lparr>uint8_2 := lsb\<rparr>\<rparr>;
          s = Wire_beginTransmission ADDRESS s;
          s = Wire_write [uint8_0 (typeBuffer s), uint8_1 (typeBuffer s), uint8_2 (typeBuffer s)] s;
          s = Wire_endTransmission T s
      in s)"

definition readRegister16 :: "'d transport \<Rightarrow> u8 \<Rightarrow> 'd state \<Rightarrow> u16 \<times> 'd state" where
  "readRegister16 T regID s =
     (let s = sendByte T regID s;
          s = Wire_requestFrom T ADDRESS 2 s;
          (r, s) = Wire_read s;
          s = s\<lparr>typeBuffer := (typeBuffer s)\<lparr>uint8_1 := word_of_int r\<rparr>\<rparr>;
          (r, s) = Wire_read s;
          s = s\<lparr>typeBuffer := (typeBuffer s)\<lparr>uint8_0 := word_of_int r\<rparr>\<rparr>
      in (uint16_0 (typeBuffer s), s))"

definition readSensor :: "'d transport \<Rightarrow> 'd state \<Rightarrow> u32 \<times> 'd state" where
  "readSensor T s =
     (let regAddress = activeChannel s * 2;
          s = sendByte T regAddress s;
          s = Wire_requestFrom T ADDRESS 2 s;
          (r, s) = Wire_read s;
          s = s\<lparr>typeBuffer := (typeBuffer s)\<lparr>uint8_3 := word_of_int r\<rparr>\<rparr>;
          (r, s) = Wire_read s;
          s = s\<lparr>typeBuffer := (typeBuffer s)\<lparr>uint8_2 := word_of_int r\<rparr>\<rparr>;
          s = sendByte T (regAddress + 1) s;
          s = Wire_requestFrom T ADDRESS 2 s;
          (r, s) = Wire_read s;
          s = s\<lparr>typeBuffer := (typeBuffer s)\<lparr>uint8_1 := word_of_int r\<rparr>\<rparr>;
          (r, s) = Wire_read s;
          s = s\<lparr>typeBuffer := (typeBuffer s)\<lparr>uint8_0 := word_of_int r\<rparr>\<rparr>;
          s = s\<lparr>typeBuffer := (typeBuffer s)\<lparr>uint8_3 := bitClear (uint8_3 (typeBuffer s)) 5\<rparr>\<rparr>;
          s = s\<lparr>typeBuffer := (typeBuffer s)\<lparr>uint8_3 := bitClear (uint8_3 (typeBuffer s)) 4\<rparr>\<rparr>
      in (uint32_0 (typeBuffer s), s))"

text \<open>
  \<open>init\<close>: the binary literals of the source (\<open>B10000000\<close> and so on) are written in
  hexadecimal.
\<close>

definition init :: "'d transport \<Rightarrow> 'd state \<Rightarrow> 'd state" where
  "init T s =
     (let s = Wire_begin s;
          s = Wire_setClock 400000 s;
          s = delay 1 s;
          s = writeRegister16 T REG_RESET 0x80 0x00 s;
          s = writeRegister16 T REG_RCOUNT_CH0 0x01 0x00 s;
          s = writeRegister16 T REG_RCOUNT_CH1 0x01 0x00 s;
          s = writeRegister16 T REG_SETTLECOUNT_CH0 0x00 0x0A s;
          s = writeRegister16 T REG_SETTLECOUNT_CH1 0x00 0x0A s;
          s = writeRegister16 T REG_CLKDIVIDERS_CH0 0x10 0x01 s;
          s = writeRegister16 T REG_CLKDIVIDERS_CH1 0x10 0x01 s;
          s = writeRegister16 T REG_ERRCONFIG 0x00 0x01 s;
          s = writeRegister16 T REG_MUXCONFIG 0x02 0x0D s;
          s = writeRegister16 T REG_DRIVECURRENT_CH0 0xF8 0x00 s;
          s = writeRegister16 T REG_DRIVECURRENT_CH1 0xF8 0x00 s;
          s = writeRegister16 T REG_CONFIG 0x1E 0x01 s
      in s)"

text \<open>
  The setters. The arguments of each \<open>writeRegister16\<close> call are read from the state
  as it is when the call is made, so the bytes \<open>typeBuffer.uint8[1]\<close> and
  \<open>typeBuffer.uint8[0]\<close> passed by \<open>set_RCOUNT\<close> and \<open>set_SETTLECOUNT\<close> are those left
  by the preceding statement.
\<close>

definition set_RCOUNT :: "'d transport \<Rightarrow> u16 \<Rightarrow> 'd state \<Rightarrow> 'd state" where
  "set_RCOUNT T v s =
     (let s = writeRegister16 T REG_CONFIG (0x3E + chConfigBit s) 0x01 s;
          s = s\<lparr>typeBuffer := set_uint16_0 v (typeBuffer s)\<rparr>;
          s = writeRegister16 T REG_RCOUNT_CH0 (uint8_1 (typeBuffer s)) (uint8_0 (typeBuffer s)) s;
          s = writeRegister16 T REG_RCOUNT_CH1 (uint8_1 (typeBuffer s)) (uint8_0 (typeBuffer s)) s;
          s = writeRegister16 T REG_CONFIG (0x1E + chConfigBit s) 0x01 s
      in s)"

definition set_SETTLECOUNT :: "'d transport \<Rightarrow> u16 \<Rightarrow> 'd state \<Rightarrow> 'd state" where
  "set_SETTLECOUNT T v s =
     (let s = writeRegister16 T REG_CONFIG (0x3E + chConfigBit s) 0x01 s;
          s = s\<lparr>typeBuffer := set_uint16_0 v (typeBuffer s)\<rparr>;
          s = writeRegister16 T REG_SETTLECOUNT_CH0 (uint8_1 (typeBuffer s)) (uint8_0 (typeBuffer s)) s;
          s = writeRegister16 T REG_SETTLECOUNT_CH1 (uint8_1 (typeBuffer s)) (uint8_0 (typeBuffer s)) s;
          s = writeRegister16 T REG_CONFIG (0x1E + chConfigBit s) 0x01 s
      in s)"

definition set_REF_DIVIDER :: "'d transport \<Rightarrow> u8 \<Rightarrow> 'd state \<Rightarrow> 'd state" where
  "set_REF_DIVIDER T v s =
     (let s = writeRegister16 T REG_CONFIG (0x3E + chConfigBit s) 0x01 s;
          s = writeRegister16 T REG_CLKDIVIDERS_CH0 0x20 v s;
          s = writeRegister16 T REG_CLKDIVIDERS_CH1 0x20 v s;
          s = writeRegister16 T REG_CONFIG (0x1E + chConfigBit s) 0x01 s
      in s)"

definition set_DRIVE_CURRENT :: "'d transport \<Rightarrow> u8 \<Rightarrow> 'd state \<Rightarrow> 'd state" where
  "set_DRIVE_CURRENT T v s =
     (let s = writeRegister16 T REG_CONFIG (0x3E + chConfigBit s) 0x01 s;
          s = writeRegister16 T REG_DRIVECURRENT_CH0 (push_bit 3 v) 0x00 s;
          s = writeRegister16 T REG_DRIVECURRENT_CH1 (push_bit 3 v) 0x00 s;
          s = writeRegister16 T REG_CONFIG (0x1E + chConfigBit s) 0x01 s
      in s)"

definition set_ACTIVE_CHANNEL :: "'d transport \<Rightarrow> u8 \<Rightarrow> 'd state \<Rightarrow> 'd state" where
  "set_ACTIVE_CHANNEL T newChannel s =
     (let s = s\<lparr>activeChannel := newChannel\<rparr>;
          s = s\<lparr>chConfigBit := newChannel * 0x40\<rparr>;
          s = writeRegister16 T REG_CONFIG (0x1E + chConfigBit s) 0x01 s
      in s)"

section \<open>Observing the bus\<close>

text \<open>
  The events a call adds to the trace, and the register writes among a list of
  events: a register write is a write transaction to the sensor's address that
  carries exactly three bytes, the register number and the two data bytes.
\<close>

definition issued :: "'d state \<Rightarrow> 'd state \<Rightarrow> event list" where
  "issued s s' = drop (length (trace s)) (trace s')"

fun register_writes :: "event list \<Rightarrow> (u8 \<times> u8 \<times> u8) list" where
  "register_writes [] = []"
| "register_writes (Transmit a [r, m, l] # es) =
     (if a = ADDRESS then (r, m, l) # register_writes es else register_writes es)"
| "register_writes (e # es) = register_writes es"

section \<open>Test doubles for the transport\<close>

text \<open>
  Modelled from the spec: the transport double pre-loaded with the bytes of the
  coming read transactions. Its state is the list of answers still to be given;
  writes are accepted and ignored, each read transaction consumes one answer.
\<close>

definition scripted :: "(u8 list list) transport" where
  "scripted =
     \<lparr>on_write = (\<lambda>a bs d. d),
      on_read = (\<lambda>a n d. case d of [] \<Rightarrow> ([], []) | r # rs \<Rightarrow> (r, rs))\<rparr>"

text \<open>
  Modelled from the spec: the simulated register file of the Bus Transport test
  double. A one-byte write transaction selects a register, a three-byte write
  transaction selects a register and stores the two data bytes in it, a read
  transaction replays the bytes of the selected register in the order they were
  written.
\<close>

record regfile =
  pointer :: u8
  cells :: "u8 \<Rightarrow> u8 \<times> u8"

fun regfile_write :: "u8 list \<Rightarrow> regfile \<Rightarrow> regfile" where
  "regfile_write [r] d = d\<lparr>pointer := r\<rparr>"
| "regfile_write [r, m, l] d = d\<lparr>pointer := r, cells := (cells d)(r := (m, l))\<rparr>"
| "regfile_write bs d = d"

definition regfile_read :: "regfile \<Rightarrow> u8 list" where
  "regfile_read d = [fst (cells d (pointer d)), snd (cells d (pointer d))]"

definition simulated :: "regfile transport" where
  "simulated =
     \<lparr>on_write = (\<lambda>a bs d. if a = ADDRESS then regfile_write bs d else d),
      on_read = (\<lambda>a n d. if a = ADDRESS then (regfile_read d, d) else ([], d))\<rparr>"

text \<open>A concrete machine to run examples on: all storage zero, nothing on the bus yet.\<close>

definition blank :: "'d \<Rightarrow> 'd state" where
  "blank d =
     \<lparr>typeBuffer = \<lparr>uint8_0 = 0, uint8_1 = 0, uint8_2 = 0, uint8_3 = 0\<rparr>,
      clockEnable = 0, intB = 0, shutDown = 0, activeChannel = 0, chConfigBit = 0,
      registerBuffer = 0, sensorValue = 0, txAddress = 0, txBuffer = [], rxBuffer = [],
      device = d, trace = []\<rparr>"

section \<open>The public operations as one step function\<close>

datatype call =
    Init
  | ReadSensor
  | ReadRegister16 u8
  | WriteRegister16 u8 u8 u8
  | SendByte u8
  | Set_RCOUNT u16
  | Set_SETTLECOUNT u16
  | Set_REF_DIVIDER u8
  | Set_DRIVE_CURRENT u8
  | Set_ACTIVE_CHANNEL u8

fun exec :: "'d transport \<Rightarrow> call \<Rightarrow> 'd state \<Rightarrow> 'd state" where
  "exec T Init s = init T s"
| "exec T ReadSensor s = snd (readSensor T s)"
| "exec T (ReadRegister16 r) s = snd (readRegister16 T r s)"
| "exec T (WriteRegister16 r m l) s = writeRegister16 T r m l s"
| "exec T (SendByte b) s = sendByte T b s"
| "exec T (Set_RCOUNT v) s = set_RCOUNT T v s"
| "exec T (Set_SETTLECOUNT v) s = set_SETTLECOUNT T v s"
| "exec T (Set_REF_DIVIDER v) s = set_REF_DIVIDER T v s"
| "exec T (Set_DRIVE_CURRENT v) s = set_DRIVE_CURRENT T v s"
| "exec T (Set_ACTIVE_CHANNEL c) s = set_ACTIVE_CHANNEL T c s"

definition chConfigBit_inv :: "'d state \<Rightarrow> bool" where
  "chConfigBit_inv s \<longleftrightarrow> unat (chConfigBit s) = (unat (activeChannel s) * 0x40) mod 256"

definition msbyte :: "u32 \<Rightarrow> u8" where
  "msbyte w = ucast (drop_bit 24 w)"

section \<open>Predicates and constants of the statements\<close>

text \<open>
  The sleep, program, wake bracket of a setter, between the state \<open>s\<close> before the
  call and the state \<open>s'\<close> after it: the call only adds events to the trace, it adds
  four of them, all four are register writes, they address the CONFIG register, the
  channel-0 register \<open>r0\<close>, the channel-1 register \<open>r1\<close> and the CONFIG register
  again, and the two CONFIG writes carry the sleep pattern and the wake pattern, each
  offset by the channel-config bit of \<open>s\<close>.
\<close>

definition sleep_program_wake :: "u8 \<Rightarrow> u8 \<Rightarrow> 'd state \<Rightarrow> 'd state \<Rightarrow> bool" where
  "sleep_program_wake r0 r1 s s' \<longleftrightarrow>
     trace s' = trace s @ issued s s'
     \<and> length (issued s s') = 4
     \<and> map fst (register_writes (issued s s')) = [REG_CONFIG, r0, r1, REG_CONFIG]
     \<and> hd (register_writes (issued s s')) = (REG_CONFIG, 0x3E + chConfigBit s, 0x01)
     \<and> last (register_writes (issued s s')) = (REG_CONFIG, 0x1E + chConfigBit s, 0x01)"

text \<open>
  The reading of the scenario: construct with pins 2, 3 and 4, initialise, read the
  sensor, over the scripted transport loaded with the bytes 0x12, 0x34 for the first
  read transaction and 0x56, 0x78 for the second.
\<close>

definition scenario_reading :: u32 where
  "scenario_reading =
     fst (readSensor scripted
           (init scripted (FDC2214 2 3 4 (blank [[0x12, 0x34], [0x56, 0x78]]))))"

section \<open>Facts about bytes and words\<close>

lemmas reg_defs =
  ADDRESS_def REG_RCOUNT_CH0_def REG_RCOUNT_CH1_def REG_SETTLECOUNT_CH0_def
  REG_SETTLECOUNT_CH1_def REG_CLKDIVIDERS_CH0_def REG_CLKDIVIDERS_CH1_def
  REG_STATUS_def REG_ERRCONFIG_def REG_CONFIG_def REG_MUXCONFIG_def REG_RESET_def
  REG_DRIVECURRENT_CH0_def REG_DRIVECURRENT_CH1_def REG_MFGID_def

lemma unat_word_cat_bytes:
  "unat (word_cat (a :: u8) (b :: u8) :: u16) = unat a * 256 + unat b"
proof -
  have a: "unat a < 256" and b: "unat b < 256"
    using unsigned_less [of a, where ?'a = nat] unsigned_less [of b, where ?'a = nat] by simp_all
  have ua: "unat (ucast a :: u16) = unat a" and ub: "unat (ucast b :: u16) = unat b"
    using a b by (simp_all add: unsigned_ucast_eq take_bit_nat_eq_self)
  have "(word_cat a b :: u16) = ucast a * 256 + ucast b"
    by (simp add: word_cat_eq push_bit_eq_mult)
  then have "unat (word_cat a b :: u16) = ((unat a * 256) mod 65536 + unat b) mod 65536"
    by (simp add: unat_word_ariths ua ub)
  with a b show ?thesis
    by simp
qed

lemma word_cat_split_u16:
  "word_cat (ucast (drop_bit 8 v) :: u8) (ucast v :: u8) = (v :: u16)"
  by (rule bit_word_eqI) (auto simp: bit_simps)

lemma msbyte_uint32_0: "msbyte (uint32_0 tb) = uint8_3 tb"
  unfolding msbyte_def uint32_0_def
  by (rule bit_word_eqI) (auto simp: bit_simps)

lemma bit_bitClear_5_4:
  "\<not> bit (bitClear (bitClear x 5) 4) 5" "\<not> bit (bitClear (bitClear x 5) 4) 4"
  by (simp_all add: bitClear_def bit_simps)

lemma bitClear_5_4: "bitClear (bitClear v 5) 4 = v AND 0xCF"
proof -
  have m: "NOT (push_bit 5 1) AND NOT (push_bit 4 1) = (0xCF :: u8)"
    by simp
  have "bitClear (bitClear v 5) 4 = v AND (NOT (push_bit 5 1) AND NOT (push_bit 4 1))"
    unfolding bitClear_def by (simp only: and.assoc)
  then show ?thesis
    by (simp only: m)
qed

lemma and_FF: "(x :: u8) AND 0xFF = x"
proof -
  have "(0xFF :: u8) = - 1" by simp
  then show ?thesis by (simp only: and.right_neutral word_and_max)
qed

lemma word_cat_and:
  "(word_cat (a AND a') (b AND b') :: 'c :: len word)
     = word_cat (a :: 'a :: len word) (b :: 'b :: len word) AND word_cat a' b'"
  by (rule bit_word_eqI) (auto simp: bit_simps)

lemma mask_CFFFFFFF:
  "(0xCFFFFFFF :: u32) =
     word_cat (word_cat (0xCF :: u8) (0xFF :: u8) :: u16) (word_cat (0xFF :: u8) (0xFF :: u8) :: u16)"
  by (simp add: word_cat_eq)

lemma word_cat_masked:
  "word_cat (word_cat (h1 AND 0xCF :: u8) (h2 :: u8) :: u16) (word_cat (l1 :: u8) (l2 :: u8) :: u16)
     = (word_cat (word_cat h1 h2 :: u16) (word_cat l1 l2 :: u16) :: u32) AND 0xCFFFFFFF"
proof -
  have "word_cat (word_cat (h1 AND 0xCF :: u8) h2 :: u16) (word_cat l1 l2 :: u16)
      = (word_cat (word_cat (h1 AND 0xCF) (h2 AND 0xFF) :: u16)
           (word_cat (l1 AND 0xFF) (l2 AND 0xFF) :: u16) :: u32)"
    by (simp only: and_FF)
  also have "\<dots> = word_cat (word_cat h1 h2 :: u16) (word_cat l1 l2 :: u16)
       AND word_cat (word_cat (0xCF :: u8) (0xFF :: u8) :: u16) (word_cat (0xFF :: u8) (0xFF :: u8) :: u16)"
    by (simp only: word_cat_and)
  finally show ?thesis
    by (simp only: mask_CFFFFFFF)
qed

text \<open>
  A channel number times 0x40, in eight bits, is one of four bytes, none of which
  reaches bit 5: added to the sleep pattern 0x3E it leaves the sleep bit set, added
  to the wake pattern 0x1E it leaves the sleep bit clear.
\<close>

lemma times_0x40_cases: "(c :: u8) * 0x40 \<in> {0, 0x40, 0x80, 0xC0}"
proof -
  have "unat (c * 0x40) = (64 * unat c) mod (64 * 4)"
    by (simp add: unat_word_ariths mult.commute)
  also have "\<dots> = 64 * (unat c mod 4)"
    by (simp only: mult_mod_right)
  finally have u: "unat (c * 0x40) = 64 * (unat c mod 4)" .
  have "unat c mod 4 < 4"
    by simp
  then consider "unat c mod 4 = 0" | "unat c mod 4 = 1" | "unat c mod 4 = 2" | "unat c mod 4 = 3"
    by linarith
  then have "unat (c * 0x40) \<in> {0, 64, 128, 192}"
    using u by cases simp_all
  then have "unat (c * 0x40) = unat (0 :: u8) \<or> unat (c * 0x40) = unat (0x40 :: u8)
      \<or> unat (c * 0x40) = unat (0x80 :: u8) \<or> unat (c * 0x40) = unat (0xC0 :: u8)"
    by auto
  then show ?thesis
    by (simp only: word_unat_eq_iff [symmetric] insert_iff empty_iff simp_thms)
qed

lemma sleep_bit_offset:
  "bit (0x3E + (c :: u8) * 0x40) 5" "\<not> bit (0x1E + (c :: u8) * 0x40) 5"
  using times_0x40_cases [of c] by (auto simp: bit_iff_odd_drop_bit)

section \<open>Basic facts about the calls\<close>

lemma issued_append: "trace s' = trace s @ es \<Longrightarrow> issued s s' = es"
  by (simp add: issued_def)

lemma sendByte_eq:
  "sendByte T b s =
     s\<lparr>txAddress := ADDRESS, txBuffer := [],
       device := on_write T ADDRESS [b] (device s),
       trace := trace s @ [Transmit ADDRESS [b]]\<rparr>"
  by (simp add: sendByte_def Wire_beginTransmission_def Wire_write_def Wire_endTransmission_def)

lemma writeRegister16_eq:
  "writeRegister16 T r m l s =
     s\<lparr>typeBuffer := (typeBuffer s)\<lparr>uint8_0 := r, uint8_1 := m, uint8_2 := l\<rparr>,
       txAddress := ADDRESS, txBuffer := [],
       device := on_write T ADDRESS [r, m, l] (device s),
       trace := trace s @ [Transmit ADDRESS [r, m, l]]\<rparr>"
  by (simp add: writeRegister16_def Wire_beginTransmission_def Wire_write_def Wire_endTransmission_def)

lemma trace_writeRegister16:
  "trace (writeRegister16 T r m l s) = trace s @ [Transmit ADDRESS [r, m, l]]"
  by (simp add: writeRegister16_eq)

lemma device_writeRegister16:
  "device (writeRegister16 T r m l s) = on_write T ADDRESS [r, m, l] (device s)"
  by (simp add: writeRegister16_eq)

lemma chConfigBit_inv_word: "chConfigBit_inv s \<longleftrightarrow> chConfigBit s = activeChannel s * 0x40"
proof -
  have "unat (activeChannel s * 0x40) = (unat (activeChannel s) * 0x40) mod 256"
    by (simp add: unat_word_ariths)
  then show ?thesis
    by (simp add: chConfigBit_inv_def word_unat_eq_iff)
qed

subsection \<open>What each call does to the two channel fields\<close>

lemma chan_FDC2214:
  "activeChannel (FDC2214 ce ib sd mem) = 0"
  "chConfigBit (FDC2214 ce ib sd mem) = 0"
  by (simp_all add: FDC2214_def pinMode_def digitalWrite_def delay_def)

lemma chan_writeRegister16:
  "activeChannel (writeRegister16 T r m l s) = activeChannel s"
  "chConfigBit (writeRegister16 T r m l s) = chConfigBit s"
  by (simp_all add: writeRegister16_eq)

lemma chan_sendByte:
  "activeChannel (sendByte T b s) = activeChannel s"
  "chConfigBit (sendByte T b s) = chConfigBit s"
  by (simp_all add: sendByte_eq)

lemma chan_Wire_requestFrom:
  "activeChannel (Wire_requestFrom T a n s) = activeChannel s"
  "chConfigBit (Wire_requestFrom T a n s) = chConfigBit s"
  by (simp_all add: Wire_requestFrom_def split: prod.splits)

lemma chan_Wire_read:
  "activeChannel (snd (Wire_read s)) = activeChannel s"
  "chConfigBit (snd (Wire_read s)) = chConfigBit s"
  by (simp_all add: Wire_read_def split: list.splits)

lemma chan_init:
  "activeChannel (init T s) = activeChannel s"
  "chConfigBit (init T s) = chConfigBit s"
  by (simp_all add: init_def chan_writeRegister16 Wire_begin_def Wire_setClock_def delay_def)

lemma chan_readRegister16:
  "activeChannel (snd (readRegister16 T r s)) = activeChannel s"
  "chConfigBit (snd (readRegister16 T r s)) = chConfigBit s"
  by (simp_all add: readRegister16_def Let_def split_beta chan_Wire_read chan_Wire_requestFrom
      chan_sendByte)

lemma chan_readSensor:
  "activeChannel (snd (readSensor T s)) = activeChannel s"
  "chConfigBit (snd (readSensor T s)) = chConfigBit s"
  by (simp_all add: readSensor_def Let_def split_beta chan_Wire_read chan_Wire_requestFrom
      chan_sendByte)

lemma chan_setters:
  "activeChannel (set_RCOUNT T v s) = activeChannel s"
  "chConfigBit (set_RCOUNT T v s) = chConfigBit s"
  "activeChannel (set_SETTLECOUNT T v s) = activeChannel s"
  "chConfigBit (set_SETTLECOUNT T v s) = chConfigBit s"
  "activeChannel (set_REF_DIVIDER T w s) = activeChannel s"
  "chConfigBit (set_REF_DIVIDER T w s) = chConfigBit s"
  "activeChannel (set_DRIVE_CURRENT T w s) = activeChannel s"
  "chConfigBit (set_DRIVE_CURRENT T w s) = chConfigBit s"
  by (simp_all add: set_RCOUNT_def set_SETTLECOUNT_def set_REF_DIVIDER_def set_DRIVE_CURRENT_def
      writeRegister16_eq)

lemma chan_set_ACTIVE_CHANNEL:
  "activeChannel (set_ACTIVE_CHANNEL T c s) = c"
  "chConfigBit (set_ACTIVE_CHANNEL T c s) = c * 0x40"
  by (simp_all add: set_ACTIVE_CHANNEL_def writeRegister16_eq)

subsection \<open>What each writing call adds to the trace\<close>

lemma trace_init:
  "trace (init T s) = trace s @
     [WireBegin, WireSetClock 400000, Delay 1,
      Transmit ADDRESS [REG_RESET, 0x80, 0x00],
      Transmit ADDRESS [REG_RCOUNT_CH0, 0x01, 0x00],
      Transmit ADDRESS [REG_RCOUNT_CH1, 0x01, 0x00],
      Transmit ADDRESS [REG_SETTLECOUNT_CH0, 0x00, 0x0A],
      Transmit ADDRESS [REG_SETTLECOUNT_CH1, 0x00, 0x0A],
      Transmit ADDRESS [REG_CLKDIVIDERS_CH0, 0x10, 0x01],
      Transmit ADDRESS [REG_CLKDIVIDERS_CH1, 0x10, 0x01],
      Transmit ADDRESS [REG_ERRCONFIG, 0x00, 0x01],
      Transmit ADDRESS [REG_MUXCONFIG, 0x02, 0x0D],
      Transmit ADDRESS [REG_DRIVECURRENT_CH0, 0xF8, 0x00],
      Transmit ADDRESS [REG_DRIVECURRENT_CH1, 0xF8, 0x00],
      Transmit ADDRESS [REG_CONFIG, 0x1E, 0x01]]"
  by (simp add: init_def trace_writeRegister16 Wire_begin_def Wire_setClock_def delay_def)

text \<open>
  In \<open>set_RCOUNT\<close> and \<open>set_SETTLECOUNT\<close> the channel-0 write stores its register
  number in \<open>typeBuffer.uint8[0]\<close> before the channel-1 write reads its low data byte
  from there: the channel-1 register receives the high byte of the value and the
  channel-0 register number as its low byte.
\<close>

lemma trace_set_RCOUNT:
  "trace (set_RCOUNT T v s) = trace s @
     [Transmit ADDRESS [REG_CONFIG, 0x3E + chConfigBit s, 0x01],
      Transmit ADDRESS [REG_RCOUNT_CH0, ucast (drop_bit 8 v), ucast v],
      Transmit ADDRESS [REG_RCOUNT_CH1, ucast (drop_bit 8 v), REG_RCOUNT_CH0],
      Transmit ADDRESS [REG_CONFIG, 0x1E + chConfigBit s, 0x01]]"
  by (simp add: set_RCOUNT_def writeRegister16_eq set_uint16_0_def)

lemma trace_set_SETTLECOUNT:
  "trace (set_SETTLECOUNT T v s) = trace s @
     [Transmit ADDRESS [REG_CONFIG, 0x3E + chConfigBit s, 0x01],
      Transmit ADDRESS [REG_SETTLECOUNT_CH0, ucast (drop_bit 8 v), ucast v],
      Transmit ADDRESS [REG_SETTLECOUNT_CH1, ucast (drop_bit 8 v), REG_SETTLECOUNT_CH0],
      Transmit ADDRESS [REG_CONFIG, 0x1E + chConfigBit s, 0x01]]"
  by (simp add: set_SETTLECOUNT_def writeRegister16_eq set_uint16_0_def)

lemma trace_set_REF_DIVIDER:
  "trace (set_REF_DIVIDER T v s) = trace s @
     [Transmit ADDRESS [REG_CONFIG, 0x3E + chConfigBit s, 0x01],
      Transmit ADDRESS [REG_CLKDIVIDERS_CH0, 0x20, v],
      Transmit ADDRESS [REG_CLKDIVIDERS_CH1, 0x20, v],
      Transmit ADDRESS [REG_CONFIG, 0x1E + chConfigBit s, 0x01]]"
  by (simp add: set_REF_DIVIDER_def writeRegister16_eq)

lemma trace_set_DRIVE_CURRENT:
  "trace (set_DRIVE_CURRENT T v s) = trace s @
     [Transmit ADDRESS [REG_CONFIG, 0x3E + chConfigBit s, 0x01],
      Transmit ADDRESS [REG_DRIVECURRENT_CH0, push_bit 3 v, 0x00],
      Transmit ADDRESS [REG_DRIVECURRENT_CH1, push_bit 3 v, 0x00],
      Transmit ADDRESS [REG_CONFIG, 0x1E + chConfigBit s, 0x01]]"
  by (simp add: set_DRIVE_CURRENT_def writeRegister16_eq)

lemma trace_set_ACTIVE_CHANNEL:
  "trace (set_ACTIVE_CHANNEL T c s) = trace s @
     [Transmit ADDRESS [REG_CONFIG, 0x1E + c * 0x40, 0x01]]"
  by (simp add: set_ACTIVE_CHANNEL_def writeRegister16_eq)

subsection \<open>What the reading calls return\<close>

lemma readRegister16_value:
  assumes "on_read T ADDRESS 2 (on_write T ADDRESS [regID] (device s)) = ([b1, b2], d)"
  shows "fst (readRegister16 T regID s) = word_cat b1 b2"
  using assms
  by (simp add: readRegister16_def sendByte_eq Wire_requestFrom_def Wire_read_def uint16_0_def)

lemma readSensor_msbyte:
  "\<not> bit (msbyte (fst (readSensor T s))) 5" "\<not> bit (msbyte (fst (readSensor T s))) 4"
  by (simp_all add: readSensor_def Let_def split_beta msbyte_uint32_0 bit_bitClear_5_4)

lemma readSensor_value:
  assumes "on_read T ADDRESS 2 (on_write T ADDRESS [activeChannel s * 2] (device s)) = ([h1, h2], d1)"
    and "on_read T ADDRESS 2 (on_write T ADDRESS [activeChannel s * 2 + 1] d1) = ([l1, l2], d2)"
  shows "fst (readSensor T s) =
           word_cat (word_cat (h1 AND 0xCF) h2 :: u16) (word_cat l1 l2 :: u16)"
    and "trace (snd (readSensor T s)) = trace s @
           [Transmit ADDRESS [activeChannel s * 2], Request ADDRESS 2 [h1, h2],
            Transmit ADDRESS [activeChannel s * 2 + 1], Request ADDRESS 2 [l1, l2]]"
  using assms
  by (simp_all add: readSensor_def Let_def sendByte_eq Wire_requestFrom_def Wire_read_def
      uint32_0_def bitClear_5_4)

subsection \<open>The scenario\<close>

lemma device_FDC2214: "device (FDC2214 ce ib sd mem) = device mem"
  by (simp add: FDC2214_def pinMode_def digitalWrite_def delay_def)

lemma device_init_scripted: "device (init scripted s) = device s"
  by (simp add: init_def device_writeRegister16 Wire_begin_def Wire_setClock_def delay_def
      scripted_def)

lemma scenario_value:
  "fst (readSensor scripted
         (init scripted (FDC2214 ce ib sd (mem\<lparr>device := [[0x12, 0x34], [0x56, 0x78]]\<rparr>))))
     = 0x02345678"
proof -
  let ?s = "init scripted (FDC2214 ce ib sd (mem\<lparr>device := [[0x12, 0x34], [0x56, 0x78]]\<rparr>))"
  have d: "device ?s = [[0x12, 0x34], [0x56, 0x78]]"
    by (simp add: device_init_scripted device_FDC2214)
  have c: "activeChannel ?s = 0"
    by (simp add: chan_init chan_FDC2214)
  have r1: "on_read scripted ADDRESS 2 (on_write scripted ADDRESS [activeChannel ?s * 2] (device ?s))
      = ([0x12, 0x34], [[0x56, 0x78]])"
    unfolding d c by (simp add: scripted_def)
  have r2: "on_read scripted ADDRESS 2 (on_write scripted ADDRESS [activeChannel ?s * 2 + 1] [[0x56, 0x78]])
      = ([0x56, 0x78], [])"
    unfolding c by (simp add: scripted_def)
  have "fst (readSensor scripted ?s) =
      word_cat (word_cat (0x12 AND 0xCF :: u8) (0x34 :: u8) :: u16)
        (word_cat (0x56 :: u8) (0x78 :: u8) :: u16)"
    by (rule readSensor_value(1) [OF r1 r2])
  also have "\<dots> = 0x02345678"
    by (simp add: word_cat_eq)
  finally show ?thesis .
qed

lemma scenario_reading_value: "scenario_reading = 0x02345678"
proof -
  have "blank [[0x12, 0x34], [0x56, 0x78]]
      = (blank [[0x12, 0x34], [0x56, 0x78 :: u8]])\<lparr>device := [[0x12, 0x34], [0x56, 0x78]]\<rparr>"
    by (simp add: blank_def)
  then show ?thesis
    unfolding scenario_reading_def using scenario_value [of 2 3 4 "blank [[0x12, 0x34], [0x56, 0x78]]"]
    by simp
qed

subsection \<open>The invariant along calls\<close>

lemma exec_preserves_inv: "chConfigBit_inv s \<Longrightarrow> chConfigBit_inv (exec T c s)"
  by (cases c)
     (simp_all add: chConfigBit_inv_word chan_init chan_readSensor chan_readRegister16
       chan_writeRegister16 chan_sendByte chan_setters chan_set_ACTIVE_CHANNEL)

lemma exec_frame:
  "\<forall>ch. c \<noteq> Set_ACTIVE_CHANNEL ch \<Longrightarrow>
     activeChannel (exec T c s) = activeChannel s \<and> chConfigBit (exec T c s) = chConfigBit s"
  by (cases c)
     (simp_all add: chan_init chan_readSensor chan_readRegister16 chan_writeRegister16
       chan_sendByte chan_setters)

lemma fold_exec_preserves_inv:
  "chConfigBit_inv s \<Longrightarrow> chConfigBit_inv (fold (exec T) cs s)"
  by (induction cs arbitrary: s) (simp_all add: exec_preserves_inv)

section \<open>The claims\<close>

subsection \<open>Initialisation\<close>

text \<open>
  Claim C1. In every call of \<open>init\<close>, from any state and over any transport, the
  call only adds events to the trace; the events added contain exactly twelve
  register writes, in the order of the source; the write of the main CONFIG register
  (register 26) is the last event and the last register write of the call, and none
  of the eleven register writes before it addresses the CONFIG register.
\<close>

theorem init_writes_CONFIG_last:
  "trace (init T s) = trace s @ issued s (init T s)
   \<and> register_writes (issued s (init T s)) =
       [(REG_RESET, 0x80, 0x00),
        (REG_RCOUNT_CH0, 0x01, 0x00), (REG_RCOUNT_CH1, 0x01, 0x00),
        (REG_SETTLECOUNT_CH0, 0x00, 0x0A), (REG_SETTLECOUNT_CH1, 0x00, 0x0A),
        (REG_CLKDIVIDERS_CH0, 0x10, 0x01), (REG_CLKDIVIDERS_CH1, 0x10, 0x01),
        (REG_ERRCONFIG, 0x00, 0x01), (REG_MUXCONFIG, 0x02, 0x0D),
        (REG_DRIVECURRENT_CH0, 0xF8, 0x00), (REG_DRIVECURRENT_CH1, 0xF8, 0x00),
        (REG_CONFIG, 0x1E, 0x01)]
   \<and> last (issued s (init T s)) = Transmit ADDRESS [REG_CONFIG, 0x1E, 0x01]
   \<and> last (register_writes (issued s (init T s))) = (REG_CONFIG, 0x1E, 0x01)
   \<and> REG_CONFIG \<notin> set (map fst (butlast (register_writes (issued s (init T s)))))
   \<and> REG_CONFIG = 26"
proof -
  note i = issued_append [OF trace_init [of T s]]
  show ?thesis
    unfolding i by (simp add: trace_init) (simp add: reg_defs)
qed

subsection \<open>The setters\<close>

text \<open>
  Claim C2, as stated, fails on the count: a setter issues four register writes,
  not three. Here \<open>set_RCOUNT\<close> with the value 0x0100, on the blank machine.
\<close>

theorem setters_three_writes_counterexample:
  "length (register_writes
     (issued (blank []) (set_RCOUNT scripted 0x0100 (blank [])))) \<noteq> 3"
  by (simp add: issued_append [OF trace_set_RCOUNT] reg_defs)

text \<open>
  Claim C2, amended. For every value argument, from any state and over any
  transport, each of \<open>set_RCOUNT\<close>, \<open>set_SETTLECOUNT\<close>, \<open>set_REF_DIVIDER\<close> and
  \<open>set_DRIVE_CURRENT\<close> issues exactly four register writes and nothing else, in the
  order: CONFIG with the sleep pattern 0x3E offset by the current channel-config
  bit, the channel-0 register, the channel-1 register, CONFIG with the wake pattern
  0x1E and the same offset. Where the channel-config bit is the active channel times
  0x40, the sleep bit (bit 5 of the high byte) is set in the first write and clear
  in the last.
\<close>

theorem setters_sleep_program_wake:
  "sleep_program_wake REG_RCOUNT_CH0 REG_RCOUNT_CH1 s (set_RCOUNT T v s)
   \<and> sleep_program_wake REG_SETTLECOUNT_CH0 REG_SETTLECOUNT_CH1 s (set_SETTLECOUNT T v s)
   \<and> sleep_program_wake REG_CLKDIVIDERS_CH0 REG_CLKDIVIDERS_CH1 s (set_REF_DIVIDER T w s)
   \<and> sleep_program_wake REG_DRIVECURRENT_CH0 REG_DRIVECURRENT_CH1 s (set_DRIVE_CURRENT T w s)
   \<and> (chConfigBit_inv s \<longrightarrow>
        bit (0x3E + chConfigBit s) 5 \<and> \<not> bit (0x1E + chConfigBit s) 5)"
proof -
  have "sleep_program_wake REG_RCOUNT_CH0 REG_RCOUNT_CH1 s (set_RCOUNT T v s)"
    by (simp add: sleep_program_wake_def issued_append [OF trace_set_RCOUNT] trace_set_RCOUNT)
  moreover have "sleep_program_wake REG_SETTLECOUNT_CH0 REG_SETTLECOUNT_CH1 s (set_SETTLECOUNT T v s)"
    by (simp add: sleep_program_wake_def issued_append [OF trace_set_SETTLECOUNT]
        trace_set_SETTLECOUNT)
  moreover have "sleep_program_wake REG_CLKDIVIDERS_CH0 REG_CLKDIVIDERS_CH1 s (set_REF_DIVIDER T w s)"
    by (simp add: sleep_program_wake_def issued_append [OF trace_set_REF_DIVIDER]
        trace_set_REF_DIVIDER)
  moreover have "sleep_program_wake REG_DRIVECURRENT_CH0 REG_DRIVECURRENT_CH1 s (set_DRIVE_CURRENT T w s)"
    by (simp add: sleep_program_wake_def issued_append [OF trace_set_DRIVE_CURRENT]
        trace_set_DRIVE_CURRENT)
  moreover have "chConfigBit_inv s \<longrightarrow>
        bit (0x3E + chConfigBit s) 5 \<and> \<not> bit (0x1E + chConfigBit s) 5"
    by (simp add: chConfigBit_inv_word sleep_bit_offset)
  ultimately show ?thesis
    by blast
qed

theorem setters_sleep_program_wake_witness:
  "chConfigBit_inv (set_ACTIVE_CHANNEL scripted 1 (blank []))
   \<and> sleep_program_wake REG_RCOUNT_CH0 REG_RCOUNT_CH1
       (set_ACTIVE_CHANNEL scripted 1 (blank []))
       (set_RCOUNT scripted 0x0100 (set_ACTIVE_CHANNEL scripted 1 (blank [])))
   \<and> bit (0x3E + chConfigBit (set_ACTIVE_CHANNEL scripted 1 (blank []))) 5
   \<and> \<not> bit (0x1E + chConfigBit (set_ACTIVE_CHANNEL scripted 1 (blank []))) 5"
proof -
  have h: "chConfigBit_inv (set_ACTIVE_CHANNEL scripted 1 (blank []))"
    by (simp add: chConfigBit_inv_def chan_set_ACTIVE_CHANNEL)
  with setters_sleep_program_wake
    [of "set_ACTIVE_CHANNEL scripted 1 (blank [])" scripted "0x0100"]
  show ?thesis
    by blast
qed

subsection \<open>Reading a register\<close>

text \<open>
  Claim C5. For every register, state and transport: when the transport, after the
  one-byte write of the register number, answers the two-byte read with \<open>b1\<close> then
  \<open>b2\<close>, \<open>readRegister16\<close> returns \<open>b1 * 256 + b2\<close>; the first byte received is the
  most significant byte of the result and the second the least significant.
\<close>

theorem readRegister16_first_byte_msb:
  "on_read T ADDRESS 2 (on_write T ADDRESS [regID] (device s)) = ([b1, b2], d) \<Longrightarrow>
     unat (fst (readRegister16 T regID s)) = unat b1 * 256 + unat b2
     \<and> ucast (drop_bit 8 (fst (readRegister16 T regID s))) = b1
     \<and> ucast (fst (readRegister16 T regID s)) = b2"
proof -
  assume a: "on_read T ADDRESS 2 (on_write T ADDRESS [regID] (device s)) = ([b1, b2], d)"
  have v: "fst (readRegister16 T regID s) = word_cat b1 b2"
    by (rule readRegister16_value [OF a])
  have "ucast (drop_bit 8 (word_cat b1 b2 :: u16)) = b1"
    by (rule bit_word_eqI) (auto simp: bit_simps)
  moreover have "ucast (word_cat b1 b2 :: u16) = b2"
    by (rule bit_word_eqI) (auto simp: bit_simps)
  ultimately show ?thesis
    by (simp add: v unat_word_cat_bytes)
qed

theorem readRegister16_first_byte_msb_witness:
  "on_read scripted ADDRESS 2
     (on_write scripted ADDRESS [REG_MFGID] (device (blank [[0x54, 0x49]]))) = ([0x54, 0x49], [])
   \<and> unat (fst (readRegister16 scripted REG_MFGID (blank [[0x54, 0x49]]))) = 0x54 * 256 + 0x49"
proof -
  have h: "on_read scripted ADDRESS 2
     (on_write scripted ADDRESS [REG_MFGID] (device (blank [[0x54, 0x49]]))) = ([0x54, 0x49], [])"
    by (simp add: scripted_def blank_def)
  show ?thesis
    using h readRegister16_first_byte_msb [OF h] by simp
qed

text \<open>
  Claim C6. Over the simulated register file, for every register, every 16-bit value
  \<open>v\<close> and every state: \<open>writeRegister16\<close> of the high and the low byte of \<open>v\<close>
  followed by \<open>readRegister16\<close> of the same register returns \<open>v\<close>.
\<close>

theorem write_then_read_roundtrip:
  "fst (readRegister16 simulated regID
         (writeRegister16 simulated regID (ucast (drop_bit 8 v)) (ucast v) s)) = v"
proof -
  let ?s = "writeRegister16 simulated regID (ucast (drop_bit 8 v)) (ucast v) s"
  have "on_read simulated ADDRESS 2 (on_write simulated ADDRESS [regID] (device ?s))
          = ([ucast (drop_bit 8 v), ucast v], regfile_write [regID] (device ?s))"
    by (simp add: simulated_def device_writeRegister16 regfile_read_def)
  then have "fst (readRegister16 simulated regID ?s)
          = word_cat (ucast (drop_bit 8 v) :: u8) (ucast v :: u8)"
    by (rule readRegister16_value)
  then show ?thesis
    by (simp only: word_cat_split_u16)
qed

subsection \<open>Reading the sensor\<close>

text \<open>
  Claim C3. Whatever the transport delivers, bit 5 and bit 4 of the most significant
  byte of the value \<open>readSensor\<close> returns (bits 29 and 28 of the value) are clear.
  When the active channel \<open>c\<close> is 0 or 1 and the transport answers the two read
  transactions with the bytes \<open>h1, h2\<close> and \<open>l1, l2\<close>, the call selects register
  \<open>2 * c\<close>, reads two bytes, selects register \<open>2 * c + 1\<close>, reads two bytes, and
  returns the first word as the upper and the second word as the lower 16 bits,
  with those two bits cleared.
\<close>

theorem readSensor_words_and_mask:
  "\<not> bit (msbyte (fst (readSensor T s))) 5 \<and> \<not> bit (msbyte (fst (readSensor T s))) 4
   \<and> \<not> bit (fst (readSensor T s)) 29 \<and> \<not> bit (fst (readSensor T s)) 28
   \<and> (activeChannel s = c \<and> (c = 0 \<or> c = 1)
        \<and> on_read T ADDRESS 2 (on_write T ADDRESS [2 * c] (device s)) = ([h1, h2], d1)
        \<and> on_read T ADDRESS 2 (on_write T ADDRESS [2 * c + 1] d1) = ([l1, l2], d2)
      \<longrightarrow>
        trace (snd (readSensor T s)) = trace s @ issued s (snd (readSensor T s))
        \<and> issued s (snd (readSensor T s)) =
          [Transmit ADDRESS [2 * c], Request ADDRESS 2 [h1, h2],
           Transmit ADDRESS [2 * c + 1], Request ADDRESS 2 [l1, l2]]
        \<and> unat (2 * c) = 2 * unat c \<and> unat (2 * c + 1) = 2 * unat c + 1
        \<and> fst (readSensor T s) =
            word_cat (word_cat h1 h2 :: u16) (word_cat l1 l2 :: u16) AND 0xCFFFFFFF
        \<and> drop_bit 16 (fst (readSensor T s)) = ucast (word_cat h1 h2 AND 0xCFFF :: u16)
        \<and> ucast (fst (readSensor T s)) = (word_cat l1 l2 :: u16))"
proof -
  have m: "\<not> bit (msbyte (fst (readSensor T s))) 5" "\<not> bit (msbyte (fst (readSensor T s))) 4"
    by (rule readSensor_msbyte)+
  then have m': "\<not> bit (fst (readSensor T s)) 29" "\<not> bit (fst (readSensor T s)) 28"
    by (simp_all add: msbyte_def bit_simps)
  have "trace (snd (readSensor T s)) = trace s @ issued s (snd (readSensor T s))
        \<and> issued s (snd (readSensor T s)) =
          [Transmit ADDRESS [2 * c], Request ADDRESS 2 [h1, h2],
           Transmit ADDRESS [2 * c + 1], Request ADDRESS 2 [l1, l2]]
        \<and> unat (2 * c) = 2 * unat c \<and> unat (2 * c + 1) = 2 * unat c + 1
        \<and> fst (readSensor T s) =
            word_cat (word_cat h1 h2 :: u16) (word_cat l1 l2 :: u16) AND 0xCFFFFFFF
        \<and> drop_bit 16 (fst (readSensor T s)) = ucast (word_cat h1 h2 AND 0xCFFF :: u16)
        \<and> ucast (fst (readSensor T s)) = (word_cat l1 l2 :: u16)"
    if ch: "activeChannel s = c" and c: "c = 0 \<or> c = 1"
      and r1: "on_read T ADDRESS 2 (on_write T ADDRESS [2 * c] (device s)) = ([h1, h2], d1)"
      and r2: "on_read T ADDRESS 2 (on_write T ADDRESS [2 * c + 1] d1) = ([l1, l2], d2)"
  proof -
    from r1 ch have r1': "on_read T ADDRESS 2 (on_write T ADDRESS [activeChannel s * 2] (device s))
        = ([h1, h2], d1)"
      by (simp add: mult.commute)
    from r2 ch have r2': "on_read T ADDRESS 2 (on_write T ADDRESS [activeChannel s * 2 + 1] d1)
        = ([l1, l2], d2)"
      by (simp add: mult.commute)
    note v = readSensor_value [OF r1' r2']
    have val: "fst (readSensor T s) =
        word_cat (word_cat h1 h2 :: u16) (word_cat l1 l2 :: u16) AND 0xCFFFFFFF"
      by (simp only: v(1) word_cat_masked)
    have ev: "issued s (snd (readSensor T s)) =
          [Transmit ADDRESS [2 * c], Request ADDRESS 2 [h1, h2],
           Transmit ADDRESS [2 * c + 1], Request ADDRESS 2 [l1, l2]]"
      using issued_append [OF v(2)] ch by (simp add: mult.commute)
    have pre: "trace (snd (readSensor T s)) = trace s @ issued s (snd (readSensor T s))"
      unfolding issued_append [OF v(2)] by (rule v(2))
    have hi: "drop_bit 16 (fst (readSensor T s)) = ucast (word_cat h1 h2 AND 0xCFFF :: u16)"
      unfolding val by (rule bit_word_eqI) (auto simp: bit_simps)
    have lo: "ucast (fst (readSensor T s)) = (word_cat l1 l2 :: u16)"
      unfolding v(1) by (rule bit_word_eqI) (auto simp: bit_simps)
    from c have "unat (2 * c) = 2 * unat c \<and> unat (2 * c + 1) = 2 * unat c + 1"
      by auto
    with val ev pre hi lo show ?thesis
      by simp
  qed
  with m m' show ?thesis
    by blast
qed

theorem readSensor_words_and_mask_witness:
  "activeChannel ((blank [[0x32, 0x34], [0x56, 0x78]])\<lparr>activeChannel := 1\<rparr>) = 1
   \<and> on_read scripted ADDRESS 2 (on_write scripted ADDRESS [2 * 1]
         (device ((blank [[0x32, 0x34], [0x56, 0x78]])\<lparr>activeChannel := 1\<rparr>)))
       = ([0x32, 0x34], [[0x56, 0x78]])
   \<and> on_read scripted ADDRESS 2 (on_write scripted ADDRESS [2 * 1 + 1] [[0x56, 0x78]])
       = ([0x56, 0x78], [])
   \<and> issued ((blank [[0x32, 0x34], [0x56, 0x78]])\<lparr>activeChannel := 1\<rparr>)
         (snd (readSensor scripted ((blank [[0x32, 0x34], [0x56, 0x78]])\<lparr>activeChannel := 1\<rparr>)))
       = [Transmit ADDRESS [2], Request ADDRESS 2 [0x32, 0x34],
          Transmit ADDRESS [3], Request ADDRESS 2 [0x56, 0x78]]
   \<and> fst (readSensor scripted ((blank [[0x32, 0x34], [0x56, 0x78]])\<lparr>activeChannel := 1\<rparr>))
       = 0x02345678"
proof -
  let ?s = "(blank [[0x32, 0x34], [0x56, 0x78]])\<lparr>activeChannel := 1\<rparr>"
  have h0: "activeChannel ?s = 1"
    by simp
  have h1: "on_read scripted ADDRESS 2 (on_write scripted ADDRESS [2 * 1] (device ?s))
       = ([0x32, 0x34], [[0x56, 0x78]])"
    by (simp add: scripted_def blank_def)
  have h2: "on_read scripted ADDRESS 2 (on_write scripted ADDRESS [2 * 1 + 1] [[0x56, 0x78]])
       = ([0x56, 0x78], [])"
    by (simp add: scripted_def)
  have w: "(word_cat (word_cat (0x32 :: u8) (0x34 :: u8) :: u16)
             (word_cat (0x56 :: u8) (0x78 :: u8) :: u16) :: u32) AND 0xCFFFFFFF = 0x02345678"
    by (simp add: word_cat_eq)
  from readSensor_words_and_mask [of scripted ?s 1 "0x32" "0x34" "[[0x56, 0x78]]" "0x56" "0x78" "[]"]
    h0 h1 h2
  have "issued ?s (snd (readSensor scripted ?s)) =
          [Transmit ADDRESS [2 * 1], Request ADDRESS 2 [0x32, 0x34],
           Transmit ADDRESS [2 * 1 + 1], Request ADDRESS 2 [0x56, 0x78]]
        \<and> fst (readSensor scripted ?s) =
            word_cat (word_cat (0x32 :: u8) (0x34 :: u8) :: u16)
              (word_cat (0x56 :: u8) (0x78 :: u8) :: u16) AND 0xCFFFFFFF"
    by blast
  with h0 h1 h2 w show ?thesis
    by simp
qed

text \<open>
  Claim C7, as stated, fails: in the scenario the reading is neither 0x12345678 nor
  0x12345678 with bits 20 and 21 cleared (0x12045678), and bits 20 and 21 of the
  reading are set.
\<close>

theorem scenario_reading_counterexample:
  "scenario_reading \<noteq> 0x12345678 \<and> scenario_reading \<noteq> 0x12045678
   \<and> bit scenario_reading 20 \<and> bit scenario_reading 21"
  unfolding scenario_reading_value by (simp add: bit_iff_odd_drop_bit)

text \<open>
  Claim C7, amended. After construction (with any pins, on any storage) and \<open>init\<close>,
  \<open>readSensor\<close> over the scripted transport loaded with the bytes 0x12, 0x34 for the
  high word and 0x56, 0x78 for the low word yields 0x12345678 with bits 28 and 29
  (bits 4 and 5 of the most significant byte) forced to 0, which is 0x02345678.
\<close>

theorem scenario_reading_masks_bits_28_29:
  "fst (readSensor scripted
         (init scripted (FDC2214 ce ib sd (mem\<lparr>device := [[0x12, 0x34], [0x56, 0x78]]\<rparr>))))
     = 0x12345678 AND NOT (push_bit 28 1 OR push_bit 29 1)
   \<and> fst (readSensor scripted
         (init scripted (FDC2214 ce ib sd (mem\<lparr>device := [[0x12, 0x34], [0x56, 0x78]]\<rparr>))))
     = 0x02345678
   \<and> scenario_reading = 0x02345678"
proof (intro conjI)
  have "(0x12345678 :: u32) AND NOT (push_bit 28 1 OR push_bit 29 1) = 0x02345678"
    by simp
  then show "fst (readSensor scripted
         (init scripted (FDC2214 ce ib sd (mem\<lparr>device := [[0x12, 0x34], [0x56, 0x78]]\<rparr>))))
     = 0x12345678 AND NOT (push_bit 28 1 OR push_bit 29 1)"
    by (simp only: scenario_value)
  show "fst (readSensor scripted
         (init scripted (FDC2214 ce ib sd (mem\<lparr>device := [[0x12, 0x34], [0x56, 0x78]]\<rparr>))))
     = 0x02345678"
    by (rule scenario_value)
  show "scenario_reading = 0x02345678"
    by (rule scenario_reading_value)
qed

subsection \<open>Selecting the channel\<close>

text \<open>
  Claim C4. For \<open>c\<close> equal to 0 or 1, from any state and over any transport,
  \<open>set_ACTIVE_CHANNEL c\<close> leaves the channel-config bit at exactly \<open>c * 0x40\<close> and the
  active channel at \<open>c\<close>, and the one event it issues is the write of the CONFIG
  register with the high byte \<open>0x1E + c * 0x40\<close>, in which the sleep bit is clear,
  and the low byte 0x01.
\<close>

theorem set_ACTIVE_CHANNEL_valid:
  "c = 0 \<or> c = 1 \<Longrightarrow>
     unat (chConfigBit (set_ACTIVE_CHANNEL T c s)) = unat c * 0x40
     \<and> activeChannel (set_ACTIVE_CHANNEL T c s) = c
     \<and> trace (set_ACTIVE_CHANNEL T c s) = trace s @ issued s (set_ACTIVE_CHANNEL T c s)
     \<and> issued s (set_ACTIVE_CHANNEL T c s) =
         [Transmit ADDRESS [REG_CONFIG, 0x1E + chConfigBit (set_ACTIVE_CHANNEL T c s), 0x01]]
     \<and> unat (0x1E + chConfigBit (set_ACTIVE_CHANNEL T c s)) = 0x1E + unat c * 0x40
     \<and> \<not> bit (0x1E + chConfigBit (set_ACTIVE_CHANNEL T c s)) 5"
  by (auto simp: chan_set_ACTIVE_CHANNEL issued_append [OF trace_set_ACTIVE_CHANNEL]
      trace_set_ACTIVE_CHANNEL bit_iff_odd_drop_bit)

theorem set_ACTIVE_CHANNEL_valid_witness:
  "((1 :: u8) = 0 \<or> (1 :: u8) = 1)
   \<and> unat (chConfigBit (set_ACTIVE_CHANNEL scripted 1 (blank []))) = 0x40
   \<and> activeChannel (set_ACTIVE_CHANNEL scripted 1 (blank [])) = 1
   \<and> issued (blank []) (set_ACTIVE_CHANNEL scripted 1 (blank [])) =
       [Transmit ADDRESS [REG_CONFIG, 0x5E, 0x01]]"
proof -
  have h: "(1 :: u8) = 0 \<or> (1 :: u8) = 1"
    by simp
  have "chConfigBit (set_ACTIVE_CHANNEL scripted 1 (blank [])) = 0x40"
    by (simp add: chan_set_ACTIVE_CHANNEL)
  with h set_ACTIVE_CHANNEL_valid [OF h, of scripted "blank []"] show ?thesis
    by simp
qed

text \<open>
  Claim C8. \<open>set_ACTIVE_CHANNEL\<close> takes the same path for every 8-bit argument \<open>c\<close>:
  it stores \<open>c\<close> and sets the channel-config bit to \<open>c * 0x40\<close> in 8-bit arithmetic,
  that is \<open>(c * 0x40) mod 256\<close>. For \<open>c = 4\<close> the channel-config bit is 0, as for
  channel 0, and the CONFIG write issued is the one issued for channel 0.
\<close>

theorem set_ACTIVE_CHANNEL_unchecked:
  "activeChannel (set_ACTIVE_CHANNEL T c s) = c
   \<and> chConfigBit (set_ACTIVE_CHANNEL T c s) = c * 0x40
   \<and> unat (chConfigBit (set_ACTIVE_CHANNEL T c s)) = (unat c * 0x40) mod 256
   \<and> activeChannel (set_ACTIVE_CHANNEL T 4 s) = 4
   \<and> chConfigBit (set_ACTIVE_CHANNEL T 4 s) = 0
   \<and> chConfigBit (set_ACTIVE_CHANNEL T 4 s) = chConfigBit (set_ACTIVE_CHANNEL T 0 s)
   \<and> issued s (set_ACTIVE_CHANNEL T 4 s) = issued s (set_ACTIVE_CHANNEL T 0 s)"
  by (simp add: chan_set_ACTIVE_CHANNEL issued_append [OF trace_set_ACTIVE_CHANNEL]
      unat_word_ariths)

subsection \<open>The channel fields\<close>

text \<open>
  Claim C9. The relation \<open>chConfigBit = (activeChannel * 0x40) mod 256\<close> holds after
  construction, where both fields are 0; every public operation preserves it;
  \<open>set_ACTIVE_CHANNEL\<close> establishes it from any state; every operation other than
  \<open>set_ACTIVE_CHANNEL\<close> leaves both fields as they were; so the relation holds after
  construction followed by any sequence of public operations.
\<close>

theorem chConfigBit_invariant:
  "chConfigBit_inv (FDC2214 ce ib sd mem)
   \<and> activeChannel (FDC2214 ce ib sd mem) = 0 \<and> chConfigBit (FDC2214 ce ib sd mem) = 0
   \<and> (chConfigBit_inv s \<longrightarrow> chConfigBit_inv (exec T c s))
   \<and> chConfigBit_inv (set_ACTIVE_CHANNEL T ch s)
   \<and> ((\<forall>ch. c \<noteq> Set_ACTIVE_CHANNEL ch) \<longrightarrow>
        activeChannel (exec T c s) = activeChannel s \<and> chConfigBit (exec T c s) = chConfigBit s)
   \<and> chConfigBit_inv (fold (exec T) cs (FDC2214 ce ib sd mem))"
proof -
  have i: "chConfigBit_inv (FDC2214 ce ib sd mem)"
    by (simp add: chConfigBit_inv_word chan_FDC2214)
  have "chConfigBit_inv (set_ACTIVE_CHANNEL T ch s)"
    by (simp add: chConfigBit_inv_word chan_set_ACTIVE_CHANNEL)
  with i fold_exec_preserves_inv [OF i] exec_frame [of c T s] show ?thesis
    by (simp add: chan_FDC2214 exec_preserves_inv)
qed

theorem chConfigBit_invariant_witness:
  "chConfigBit_inv (set_ACTIVE_CHANNEL scripted 1 (blank []))
   \<and> (\<forall>ch. Set_RCOUNT 0x0100 \<noteq> Set_ACTIVE_CHANNEL ch)
   \<and> chConfigBit_inv (exec scripted (Set_RCOUNT 0x0100) (set_ACTIVE_CHANNEL scripted 1 (blank [])))
   \<and> activeChannel (exec scripted (Set_RCOUNT 0x0100) (set_ACTIVE_CHANNEL scripted 1 (blank []))) = 1
   \<and> chConfigBit (exec scripted (Set_RCOUNT 0x0100) (set_ACTIVE_CHANNEL scripted 1 (blank []))) = 0x40"
proof -
  let ?s = "set_ACTIVE_CHANNEL scripted 1 (blank [])"
  have h: "chConfigBit_inv ?s"
    by (simp add: chConfigBit_inv_def chan_set_ACTIVE_CHANNEL)
  have n: "\<forall>ch. Set_RCOUNT 0x0100 \<noteq> Set_ACTIVE_CHANNEL ch"
    by simp
  have "activeChannel ?s = 1" "chConfigBit ?s = 0x40"
    by (simp_all add: chan_set_ACTIVE_CHANNEL)
  with h n chConfigBit_invariant [of 2 3 4 "blank []" ?s scripted "Set_RCOUNT 0x0100"]
  show ?thesis
    by simp
qed

text \<open>
  Claim C10. From any state, over any transport and for every argument, \<open>init\<close>,
  \<open>readSensor\<close>, \<open>readRegister16\<close>, \<open>writeRegister16\<close>, \<open>sendByte\<close>, \<open>set_RCOUNT\<close>,
  \<open>set_SETTLECOUNT\<close>, \<open>set_REF_DIVIDER\<close> and \<open>set_DRIVE_CURRENT\<close> leave \<open>activeChannel\<close>
  and \<open>chConfigBit\<close> as they were; \<open>set_ACTIVE_CHANNEL\<close> writes both, and changes both
  when it selects channel 1 on the blank machine.
\<close>

theorem channel_fields_frame:
  "activeChannel (init T s) = activeChannel s \<and> chConfigBit (init T s) = chConfigBit s
   \<and> activeChannel (snd (readSensor T s)) = activeChannel s
   \<and> chConfigBit (snd (readSensor T s)) = chConfigBit s
   \<and> activeChannel (snd (readRegister16 T r s)) = activeChannel s
   \<and> chConfigBit (snd (readRegister16 T r s)) = chConfigBit s
   \<and> activeChannel (writeRegister16 T r m l s) = activeChannel s
   \<and> chConfigBit (writeRegister16 T r m l s) = chConfigBit s
   \<and> activeChannel (sendByte T b s) = activeChannel s
   \<and> chConfigBit (sendByte T b s) = chConfigBit s
   \<and> activeChannel (set_RCOUNT T v s) = activeChannel s
   \<and> chConfigBit (set_RCOUNT T v s) = chConfigBit s
   \<and> activeChannel (set_SETTLECOUNT T v s) = activeChannel s
   \<and> chConfigBit (set_SETTLECOUNT T v s) = chConfigBit s
   \<and> activeChannel (set_REF_DIVIDER T w s) = activeChannel s
   \<and> chConfigBit (set_REF_DIVIDER T w s) = chConfigBit s
   \<and> activeChannel (set_DRIVE_CURRENT T w s) = activeChannel s
   \<and> chConfigBit (set_DRIVE_CURRENT T w s) = chConfigBit s
   \<and> activeChannel (set_ACTIVE_CHANNEL T c s) = c
   \<and> chConfigBit (set_ACTIVE_CHANNEL T c s) = c * 0x40
   \<and> activeChannel (set_ACTIVE_CHANNEL T 1 (blank d)) \<noteq> activeChannel (blank d)
   \<and> chConfigBit (set_ACTIVE_CHANNEL T 1 (blank d)) \<noteq> chConfigBit (blank d)"
  by (simp add: chan_init chan_readSensor chan_readRegister16 chan_writeRegister16
      chan_sendByte chan_setters chan_set_ACTIVE_CHANNEL blank_def)

end
